theory Spec2Isabelle
  imports Main "HOL-Library.Word"
begin

section \<open>Machine types\<close>

text \<open>
  \<open>uint64_t\<close>, \<open>uint32_t\<close> and \<open>int\<close> (32 bits on the Linux targets the headers are
  guarded for) are words of that width; \<open><\<close> on \<open>uint64_t\<close> compares the unsigned values,
  as the C++ operator does. An object pointer is an address, \<open>nullptr\<close> the address 0.
  A \<open>Zone *\<close> is a handle on a zone of the pool and is represented by that zone's
  \<open>zone_id_\<close>, the key of \<open>ZonedBlockDevice::id_to_zone_\<close>.

  A member \<open>x_\<close> of the source is named \<open>x\<close> here behind a prefix for its class
  (\<open>zei_valid\<close> is \<open>ZoneExtentInfo::valid_\<close>), since several classes share member names.
  Mutexes, condition variables and the \<open>double\<close> \<open>secondary_lifetime_\<close> are left out.
\<close>

type_synonym uint64_t = "64 word"
type_synonym uint32_t = "32 word"
type_synonym cint = "32 word"
type_synonym byte = "8 word"
type_synonym ptr = nat
type_synonym zone_ref = "32 word"

definition nullptr :: ptr where
  "nullptr = 0"

section \<open>Library types of RocksDB\<close>

text \<open>
  \<open>Status\<close> and \<open>IOStatus\<close> (rocksdb/status.h, rocksdb/io_status.h) carry a code, a
  subcode and a message; the static member functions \<open>OK()\<close>, \<open>IOError(msg)\<close>,
  \<open>NotSupported(msg)\<close>, \<open>NoSpace()\<close> and \<open>Corruption(msg)\<close> build them. The code
  \<open>kNotSupported\<close> is the one RocksDB prints as "Not implemented".
\<close>

datatype Code = kOk | kNotFound | kCorruption | kNotSupported | kInvalidArgument | kIOError

datatype SubCode = kNone | kNoSpace

record Status =
  code :: Code
  subcode :: SubCode
  state :: string

type_synonym IOStatus = Status

definition Status_OK :: Status where
  "Status_OK = \<lparr>code = kOk, subcode = kNone, state = []\<rparr>"

definition Status_IOError :: "string \<Rightarrow> Status" where
  "Status_IOError msg = \<lparr>code = kIOError, subcode = kNone, state = msg\<rparr>"

definition Status_NotSupported :: "string \<Rightarrow> Status" where
  "Status_NotSupported msg = \<lparr>code = kNotSupported, subcode = kNone, state = msg\<rparr>"

definition Status_NoSpace :: Status where
  "Status_NoSpace = \<lparr>code = kIOError, subcode = kNoSpace, state = []\<rparr>"

definition Status_Corruption :: "string \<Rightarrow> Status" where
  "Status_Corruption msg = \<lparr>code = kCorruption, subcode = kNone, state = msg\<rparr>"

definition ok :: "Status \<Rightarrow> bool" where
  "ok s \<longleftrightarrow> code s = kOk"

definition IsIOError :: "Status \<Rightarrow> bool" where
  "IsIOError s \<longleftrightarrow> code s = kIOError"

definition IsNotSupported :: "Status \<Rightarrow> bool" where
  "IsNotSupported s \<longleftrightarrow> code s = kNotSupported"

definition IsNoSpace :: "Status \<Rightarrow> bool" where
  "IsNoSpace s \<longleftrightarrow> code s = kIOError \<and> subcode s = kNoSpace"

text \<open>
  Modelled from the spec: \<open>Env::WriteLifeTimeHint\<close>, declared in rocksdb/env.h, which is
  not among the sources. The spec (section 3) lists the hints of a zone as NOT_SET, SHORT,
  MEDIUM, LONG and EXTREME.
\<close>

datatype WriteLifeTimeHint = WLTH_NOT_SET | WLTH_SHORT | WLTH_MEDIUM | WLTH_LONG | WLTH_EXTREME

text \<open>\<open>FileOptions\<close>: the one option the file handles read.\<close>

record FileOptions =
  use_direct_reads :: bool

text \<open>\<open>FSReadRequest\<close>: a read to perform, with the place for its result.\<close>

record FSReadRequest =
  req_offset :: uint64_t
  req_len :: uint64_t
  req_result :: "byte list"
  req_status :: Status

section \<open>Extent back-references (zbd_zenfs.h)\<close>

record ZoneExtentInfo =
  zei_extent :: ptr
  zei_zone_file :: ptr
  zei_valid :: bool
  zei_length :: uint32_t
  zei_start :: uint64_t
  zei_zone :: zone_ref
  zei_fname :: string
  zei_lt :: WriteLifeTimeHint
  zei_level :: cint

text \<open>The constructor; it narrows the 64-bit \<open>length\<close> to the 32-bit member.\<close>

definition ZoneExtentInfo_ctor ::
  "ptr \<Rightarrow> ptr \<Rightarrow> bool \<Rightarrow> uint64_t \<Rightarrow> uint64_t \<Rightarrow> zone_ref \<Rightarrow> string
     \<Rightarrow> WriteLifeTimeHint \<Rightarrow> cint \<Rightarrow> ZoneExtentInfo" where
  "ZoneExtentInfo_ctor extent zone_file valid len start zone fname lt lvl =
     \<lparr>zei_extent = extent, zei_zone_file = zone_file, zei_valid = valid,
      zei_length = ucast len, zei_start = start, zei_zone = zone, zei_fname = fname,
      zei_lt = lt, zei_level = lvl\<rparr>"

text \<open>
  \<open>ZoneExtentInfo::invalidate\<close>. The call either aborts the process, when the
  \<open>assert\<close> is compiled in (\<open>ndebug\<close> false, no \<open>NDEBUG\<close>) and fails, or returns with
  the object updated. The standard error stream is the list of the strings written to it.
\<close>

datatype abort = AssertionFailed

definition invalidate_msg :: string where
  "invalidate_msg = ''Try to invalidate invalid extent!'' @ [CHR 0x0A]"

definition invalidate ::
  "bool \<Rightarrow> ZoneExtentInfo \<Rightarrow> string list \<Rightarrow> abort + ZoneExtentInfo \<times> string list" where
  "invalidate ndebug e stderr =
     (if \<not> ndebug \<and> zei_extent e = nullptr then Inl AssertionFailed
      else
        let stderr' = (if \<not> zei_valid e then stderr @ [invalidate_msg] else stderr)
        in Inr (e\<lparr>zei_valid := False\<rparr>, stderr'))"

text \<open>Any number of calls in a row; an abort ends the run.\<close>

fun invalidate_times ::
  "nat \<Rightarrow> bool \<Rightarrow> ZoneExtentInfo \<Rightarrow> string list \<Rightarrow> abort + ZoneExtentInfo \<times> string list" where
  "invalidate_times 0 ndebug e stderr = Inr (e, stderr)"
| "invalidate_times (Suc n) ndebug e stderr =
     (case invalidate ndebug e stderr of
        Inl a \<Rightarrow> Inl a
      | Inr (e', stderr') \<Rightarrow> invalidate_times n ndebug e' stderr')"

section \<open>Zone victims and their comparators (zbd_zenfs.h)\<close>

text \<open>\<open>class GCVictimZone\<close>: a zone and the invalid bytes counted for it.\<close>

record GCVictimZone =
  gc_zone :: zone_ref
  gc_invalid_bytes :: uint64_t

definition GCVictimZone_get_inval_bytes :: "GCVictimZone \<Rightarrow> uint64_t" where
  "GCVictimZone_get_inval_bytes v = gc_invalid_bytes v"

text \<open>\<open>InvalComp::operator()\<close>\<close>

definition InvalComp :: "GCVictimZone \<Rightarrow> GCVictimZone \<Rightarrow> bool" where
  "InvalComp a b \<longleftrightarrow> GCVictimZone_get_inval_bytes a < GCVictimZone_get_inval_bytes b"

text \<open>\<open>class AllocVictimZone\<close>: a zone with its invalid and its valid bytes.\<close>

record AllocVictimZone =
  av_zone :: zone_ref
  av_invalid_bytes :: uint64_t
  av_valid_bytes :: uint64_t

definition AllocVictimZone_get_inval_bytes :: "AllocVictimZone \<Rightarrow> uint64_t" where
  "AllocVictimZone_get_inval_bytes v = av_invalid_bytes v"

definition AllocVictimZone_get_valid_bytes :: "AllocVictimZone \<Rightarrow> uint64_t" where
  "AllocVictimZone_get_valid_bytes v = av_valid_bytes v"

text \<open>\<open>InvalValComp::operator()\<close>, branch by branch.\<close>

definition InvalValComp :: "AllocVictimZone \<Rightarrow> AllocVictimZone \<Rightarrow> bool" where
  "InvalValComp a b =
     (if AllocVictimZone_get_valid_bytes a > AllocVictimZone_get_valid_bytes b then True
      else if AllocVictimZone_get_valid_bytes a = AllocVictimZone_get_valid_bytes b
        then AllocVictimZone_get_inval_bytes a < AllocVictimZone_get_inval_bytes b
      else False)"

section \<open>std::priority_queue\<close>

text \<open>
  \<open>gc_queue_\<close> and \<open>allocate_queue_\<close> are
  \<open>std::priority_queue<T *, std::vector<T *>, Compare>\<close>. The C++ standard keeps the
  underlying vector a heap with respect to \<open>Compare\<close>, which has to be a strict weak
  ordering: no element compares less than its children (\<open>is_heap\<close>). \<open>top()\<close> is the
  front of the vector, and \<open>pop()\<close> removes it and makes a heap of the others.
\<close>

definition strict_weak_order :: "('a \<Rightarrow> 'a \<Rightarrow> bool) \<Rightarrow> bool" where
  "strict_weak_order cmp \<longleftrightarrow>
     (\<forall>a. \<not> cmp a a)
   \<and> (\<forall>a b c. cmp a b \<longrightarrow> cmp b c \<longrightarrow> cmp a c)
   \<and> (\<forall>a b c. \<not> cmp a b \<longrightarrow> \<not> cmp b c \<longrightarrow> \<not> cmp a c)"

definition is_heap :: "('a \<Rightarrow> 'a \<Rightarrow> bool) \<Rightarrow> 'a list \<Rightarrow> bool" where
  "is_heap cmp v \<longleftrightarrow> (\<forall>i < length v. 0 < i \<longrightarrow> \<not> cmp (v ! ((i - 1) div 2)) (v ! i))"

text \<open>
  The front of a heap is a queued element \<open>m\<close> such that \<open>Compare(m, x)\<close> is false for
  every queued \<open>x\<close> (lemma \<open>heap_front_is_top\<close> below). Which one of several such
  elements is at the front depends on the layout of the heap, so the queue is modelled by
  its contents, and popping as a relation: \<open>pq_pops cmp q out rest\<close> says that \<open>top()\<close>
  and \<open>pop()\<close>, repeated on the queue \<open>q\<close>, can yield the elements \<open>out\<close>, in this
  order, and leave \<open>rest\<close> queued.
\<close>

definition pq_is_top :: "('a \<Rightarrow> 'a \<Rightarrow> bool) \<Rightarrow> 'a list \<Rightarrow> 'a \<Rightarrow> bool" where
  "pq_is_top cmp q m \<longleftrightarrow> m \<in> set q \<and> (\<forall>x \<in> set q. \<not> cmp m x)"

inductive pq_pops :: "('a \<Rightarrow> 'a \<Rightarrow> bool) \<Rightarrow> 'a list \<Rightarrow> 'a list \<Rightarrow> 'a list \<Rightarrow> bool"
  for cmp :: "'a \<Rightarrow> 'a \<Rightarrow> bool" where
  pops_none: "pq_pops cmp q [] q"
| pops_step: "pq_is_top cmp q m \<Longrightarrow> pq_pops cmp (remove1 m q) out rest
                \<Longrightarrow> pq_pops cmp q (m # out) rest"

text \<open>
  One deterministic queue that meets the contract: \<open>top()\<close> is the first queued element
  that nothing queued exceeds. It is \<open>None\<close> on an empty queue, where C++ leaves
  \<open>top()\<close> undefined. \<open>pq_pop_n n\<close> pops \<open>n\<close> times.
\<close>

definition pq_top :: "('a \<Rightarrow> 'a \<Rightarrow> bool) \<Rightarrow> 'a list \<Rightarrow> 'a option" where
  "pq_top cmp q = find (pq_is_top cmp q) q"

fun pq_pop_n :: "nat \<Rightarrow> ('a \<Rightarrow> 'a \<Rightarrow> bool) \<Rightarrow> 'a list \<Rightarrow> ('a list \<times> 'a list) option" where
  "pq_pop_n 0 cmp q = Some ([], q)"
| "pq_pop_n (Suc n) cmp q =
     (case pq_top cmp q of
        None \<Rightarrow> None
      | Some m \<Rightarrow> map_option (\<lambda>(out, rest). (m # out, rest)) (pq_pop_n n cmp (remove1 m q)))"

section \<open>Zones (zbd_zenfs.h)\<close>

text \<open>
  \<open>class Zone\<close>. \<open>capacity_\<close> is the remaining capacity; \<open>used_capacity_\<close> is a
  \<open>long\<close>, 64 bits wide. \<open>extent_info_\<close> holds the back-references the zone owns.
\<close>

record Zone =
  z_zone_id :: cint
  z_start :: uint64_t
  z_capacity :: uint64_t
  z_max_capacity :: uint64_t
  z_wp :: uint64_t
  z_open_for_write :: bool
  z_is_append :: bool
  z_lifetime :: WriteLifeTimeHint
  z_used_capacity :: "64 word"
  z_extent_info :: "ZoneExtentInfo list"

text \<open>\<open>Zone::PushExtentInfo\<close>\<close>

definition PushExtentInfo :: "Zone \<Rightarrow> ZoneExtentInfo \<Rightarrow> Zone" where
  "PushExtentInfo z extent_info = z\<lparr>z_extent_info := z_extent_info z @ [extent_info]\<rparr>"

text \<open>
  Modelled from the spec: the body of \<open>Zone::Append(char *data, uint32_t size)\<close>, which
  zbd_zenfs.h only declares. Section 4.2: on success \<open>write_pointer += size\<close> and
  \<open>remaining_capacity -= size\<close>; if size exceeds \<open>remaining_capacity\<close> the call fails with
  no-space and the zone is left unchanged. Section 4.1: the device's append may fail, which
  is an IO-Error. The device is the argument \<open>dev\<close>: \<open>dev wp buf\<close> tells whether writing
  \<open>buf\<close> at \<open>wp\<close> succeeds. The 32-bit \<open>size\<close> is widened for the comparison with the
  64-bit \<open>capacity_\<close>, as C++ does.
\<close>

definition Zone_Append ::
  "(uint64_t \<Rightarrow> byte list \<Rightarrow> bool) \<Rightarrow> Zone \<Rightarrow> byte list \<Rightarrow> uint32_t \<Rightarrow> IOStatus \<times> Zone" where
  "Zone_Append dev z data sz =
     (if z_capacity z < ucast sz then (Status_NoSpace, z)
      else if \<not> dev (z_wp z) (take (unat sz) data)
        then (Status_IOError ''Write failed'', z)
      else (Status_OK, z\<lparr>z_wp := z_wp z + ucast sz,
                          z_capacity := z_capacity z - ucast sz\<rparr>))"

section \<open>Files and their extents (io_zenfs.h)\<close>

record ZoneExtent =
  ze_start :: uint64_t
  ze_length :: uint32_t
  ze_zone :: zone_ref

text \<open>
  \<open>class ZoneFile\<close>. An \<open>InternalKey\<close> is the byte string it wraps; \<open>active_zone_\<close> may
  be null; \<open>full_buffer_\<close> holds the contents of the buffers.
\<close>

record ZoneFile =
  zf_zbd :: ptr
  zf_extents :: "ZoneExtent list"
  zf_active_zone :: "zone_ref option"
  zf_extent_start :: uint64_t
  zf_extent_filepos :: uint64_t
  zf_lifetime :: WriteLifeTimeHint
  zf_fileSize :: uint64_t
  zf_filename :: string
  zf_file_id :: uint64_t
  zf_nr_synced_extents :: uint32_t
  zf_full_buffer :: "byte list list"
  zf_smallest :: "byte list"
  zf_largest :: "byte list"
  zf_level :: cint
  zf_is_appending :: bool
  zf_marked_for_del :: bool
  zf_should_flush_full_buffer :: bool
  zf_is_sst :: bool
  zf_fno :: uint64_t

definition GetExtents :: "ZoneFile \<Rightarrow> ZoneExtent list" where
  "GetExtents f = zf_extents f"

definition UpdateExtents :: "ZoneFile \<Rightarrow> ZoneExtent list \<Rightarrow> ZoneFile" where
  "UpdateExtents f a = f\<lparr>zf_extents := a\<rparr>"

definition GetID :: "ZoneFile \<Rightarrow> uint64_t" where
  "GetID f = zf_file_id f"

text \<open>
  \<open>ZoneFile::MetadataSynced\<close>: \<open>extents_.size()\<close> is a 64-bit \<open>size_t\<close>, and the
  assignment to the \<open>uint32_t\<close> member keeps its low 32 bits.
\<close>

definition MetadataSynced :: "ZoneFile \<Rightarrow> ZoneFile" where
  "MetadataSynced f = f\<lparr>zf_nr_synced_extents := of_nat (length (zf_extents f))\<rparr>"

text \<open>
  The attributes of a file that its metadata record carries (spec, section 4.4):
  \<open>(file_id, filename, lifetime, file_size, smallest, largest, level, extents)\<close>.
\<close>

definition ZoneFile_meta ::
  "ZoneFile \<Rightarrow> uint64_t \<times> string \<times> WriteLifeTimeHint \<times> uint64_t \<times> byte list \<times> byte list
     \<times> cint \<times> ZoneExtent list" where
  "ZoneFile_meta f =
     (zf_file_id f, zf_filename f, zf_lifetime f, zf_fileSize f, zf_smallest f, zf_largest f,
      zf_level f, zf_extents f)"

subsection \<open>The metadata record\<close>

text \<open>
  Modelled from the spec: the framing of the metadata record, which is the work of
  \<open>ZoneFile::EncodeTo\<close>, \<open>ZoneFile::DecodeFrom\<close>, \<open>ZoneExtent::EncodeTo\<close> and
  \<open>ZoneExtent::DecodeFrom\<close>; io_zenfs.h declares them and their bodies are not among
  the sources. Section 6 gives the encoded record: a sequence of length-prefixed fields,
  version-tagged,
  \<open>{file_id:u64, filename:string, lifetime:u8, file_size:u64, smallest_key:bytes,
  largest_key:bytes, level:i32, extents:[{start:u64, length:u32, zone_id:u32}]}\<close>,
  little-endian; a delta omits the prefix of the extents already synced, a snapshot
  includes all of them.

  The spec leaves open how a length and the version tag are written. Here a length is
  written in base 128, low digit first, one digit a byte, with the high bit of a byte set
  when another digit follows; the tag is one leading byte. The lifetime is written as the
  position of the hint in the spec's list.
\<close>

function put_varint :: "nat \<Rightarrow> byte list" where
  "put_varint n =
     (if n < 128 then [of_nat n] else of_nat (128 + n mod 128) # put_varint (n div 128))"
  by pat_completeness auto
termination
  by (relation "measure (\<lambda>n. n)") auto

declare put_varint.simps [simp del]

fun get_varint :: "byte list \<Rightarrow> (nat \<times> byte list) option" where
  "get_varint [] = None"
| "get_varint (b # bs) =
     (if unat b < 128 then Some (unat b, bs)
      else case get_varint bs of
             None \<Rightarrow> None
           | Some (n, rest) \<Rightarrow> Some (unat b - 128 + 128 * n, rest))"

definition put_field :: "byte list \<Rightarrow> byte list" where
  "put_field p = put_varint (length p) @ p"

definition get_field :: "byte list \<Rightarrow> (byte list \<times> byte list) option" where
  "get_field inp =
     (case get_varint inp of
        None \<Rightarrow> None
      | Some (n, rest) \<Rightarrow> if length rest < n then None else Some (take n rest, drop n rest))"

text \<open>
  Modelled from the spec: the integers of the record (\<open>u64\<close>, \<open>u32\<close>, \<open>i32\<close>), of a
  fixed width and little-endian (section 6); the helpers that write them are not among
  the sources.
\<close>

fun le_bytes :: "nat \<Rightarrow> nat \<Rightarrow> byte list" where
  "le_bytes 0 v = []"
| "le_bytes (Suc n) v = of_nat (v mod 256) # le_bytes n (v div 256)"

fun le_value :: "byte list \<Rightarrow> nat" where
  "le_value [] = 0"
| "le_value (b # bs) = unat b + 256 * le_value bs"

definition PutFixed64 :: "64 word \<Rightarrow> byte list" where
  "PutFixed64 w = le_bytes 8 (unat w)"

definition PutFixed32 :: "32 word \<Rightarrow> byte list" where
  "PutFixed32 w = le_bytes 4 (unat w)"

definition GetFixed64 :: "byte list \<Rightarrow> 64 word option" where
  "GetFixed64 p = (if length p = 8 then Some (of_nat (le_value p)) else None)"

definition GetFixed32 :: "byte list \<Rightarrow> 32 word option" where
  "GetFixed32 p = (if length p = 4 then Some (of_nat (le_value p)) else None)"

definition put_string :: "string \<Rightarrow> byte list" where
  "put_string s = map (\<lambda>c. of_nat (of_char c)) s"

definition get_string :: "byte list \<Rightarrow> string" where
  "get_string p = map (\<lambda>b. char_of (unat b)) p"

fun lifetime_code :: "WriteLifeTimeHint \<Rightarrow> byte" where
  "lifetime_code WLTH_NOT_SET = 0"
| "lifetime_code WLTH_SHORT = 1"
| "lifetime_code WLTH_MEDIUM = 2"
| "lifetime_code WLTH_LONG = 3"
| "lifetime_code WLTH_EXTREME = 4"

definition lifetime_of_code :: "byte \<Rightarrow> WriteLifeTimeHint option" where
  "lifetime_of_code b =
     (if b = 0 then Some WLTH_NOT_SET
      else if b = 1 then Some WLTH_SHORT
      else if b = 2 then Some WLTH_MEDIUM
      else if b = 3 then Some WLTH_LONG
      else if b = 4 then Some WLTH_EXTREME
      else None)"

definition get_lifetime :: "byte list \<Rightarrow> WriteLifeTimeHint option" where
  "get_lifetime p = (case p of [b] \<Rightarrow> lifetime_of_code b | _ \<Rightarrow> None)"

text \<open>
  Modelled from the spec: \<open>ZoneExtent::EncodeTo\<close> and \<open>ZoneExtent::DecodeFrom\<close>, which
  io_zenfs.h only declares. An encoded extent is \<open>{start:u64, length:u32, zone_id:u32}\<close>
  (section 6), 16 bytes; the extents field of a record is these, one after the other.
\<close>

definition ZoneExtent_EncodeTo :: "ZoneExtent \<Rightarrow> byte list" where
  "ZoneExtent_EncodeTo e = PutFixed64 (ze_start e) @ PutFixed32 (ze_length e) @ PutFixed32 (ze_zone e)"

definition ZoneExtent_DecodeFrom :: "byte list \<Rightarrow> ZoneExtent option" where
  "ZoneExtent_DecodeFrom p =
     (case GetFixed64 (take 8 p) of
        None \<Rightarrow> None
      | Some s \<Rightarrow>
          (case GetFixed32 (take 4 (drop 8 p)) of
             None \<Rightarrow> None
           | Some l \<Rightarrow>
               (case GetFixed32 (drop 12 p) of
                  None \<Rightarrow> None
                | Some z \<Rightarrow> Some \<lparr>ze_start = s, ze_length = l, ze_zone = z\<rparr>)))"

function get_extents :: "byte list \<Rightarrow> ZoneExtent list option" where
  "get_extents p =
     (if p = [] then Some []
      else if length p < 16 then None
      else case ZoneExtent_DecodeFrom (take 16 p) of
             None \<Rightarrow> None
           | Some e \<Rightarrow> map_option ((#) e) (get_extents (drop 16 p)))"
  by pat_completeness auto
termination
  by (relation "measure length") auto

declare get_extents.simps [simp del]

definition kVersion :: byte where
  "kVersion = 1"

text \<open>
  Modelled from the spec: the body of \<open>ZoneFile::EncodeTo(output, extent_start)\<close>, which
  io_zenfs.h only declares. It appends the record of section 6 to \<open>output\<close>; the extents
  written are those from index \<open>extent_start\<close> on (section 4.4: the delta emits only the
  extents beyond \<open>nr_synced_extents\<close>, the snapshot the full list).
\<close>

definition EncodeTo :: "ZoneFile \<Rightarrow> byte list \<Rightarrow> uint32_t \<Rightarrow> byte list" where
  "EncodeTo f output extent_start =
     output @ [kVersion]
       @ put_field (PutFixed64 (zf_file_id f))
       @ put_field (put_string (zf_filename f))
       @ put_field [lifetime_code (zf_lifetime f)]
       @ put_field (PutFixed64 (zf_fileSize f))
       @ put_field (zf_smallest f)
       @ put_field (zf_largest f)
       @ put_field (PutFixed32 (zf_level f))
       @ put_field (concat (map ZoneExtent_EncodeTo (drop (unat extent_start) (zf_extents f))))"

text \<open>\<open>ZoneFile::EncodeUpdateTo\<close> and \<open>ZoneFile::EncodeSnapshotTo\<close>, as in io_zenfs.h.\<close>

definition EncodeUpdateTo :: "ZoneFile \<Rightarrow> byte list \<Rightarrow> byte list" where
  "EncodeUpdateTo f output = EncodeTo f output (zf_nr_synced_extents f)"

definition EncodeSnapshotTo :: "ZoneFile \<Rightarrow> byte list \<Rightarrow> byte list" where
  "EncodeSnapshotTo f output = EncodeTo f output 0"

text \<open>
  Modelled from the spec: the body of \<open>ZoneFile::DecodeFrom(input)\<close>, which io_zenfs.h
  only declares. It reads a record into the file it is called on, setting the attributes
  the record carries (section 4.4). A decode failure is a Corruption (section 7); the file
  is then returned as it was.
\<close>

definition decode_record ::
  "byte list \<Rightarrow> (uint64_t \<times> string \<times> WriteLifeTimeHint \<times> uint64_t \<times> byte list \<times> byte list
     \<times> cint \<times> ZoneExtent list) option" where
  "decode_record inp =
     (case inp of
        [] \<Rightarrow> None
      | tag # r0 \<Rightarrow>
          if tag \<noteq> kVersion then None
          else
            Option.bind (get_field r0) (\<lambda>(p1, r1).
            Option.bind (GetFixed64 p1) (\<lambda>file_id.
            Option.bind (get_field r1) (\<lambda>(p2, r2).
            Option.bind (get_field r2) (\<lambda>(p3, r3).
            Option.bind (get_lifetime p3) (\<lambda>lifetime.
            Option.bind (get_field r3) (\<lambda>(p4, r4).
            Option.bind (GetFixed64 p4) (\<lambda>file_size.
            Option.bind (get_field r4) (\<lambda>(p5, r5).
            Option.bind (get_field r5) (\<lambda>(p6, r6).
            Option.bind (get_field r6) (\<lambda>(p7, r7).
            Option.bind (GetFixed32 p7) (\<lambda>level.
            Option.bind (get_field r7) (\<lambda>(p8, r8).
            Option.bind (get_extents p8) (\<lambda>extents.
              Some (file_id, get_string p2, lifetime, file_size, p5, p6, level,
                    extents)))))))))))))))"

definition DecodeFrom :: "ZoneFile \<Rightarrow> byte list \<Rightarrow> Status \<times> ZoneFile" where
  "DecodeFrom this inp =
     (case decode_record inp of
        None \<Rightarrow> (Status_Corruption ''Zone file: bad metadata record'', this)
      | Some (file_id, filename, lifetime, file_size, smallest, largest, level, extents) \<Rightarrow>
          (Status_OK,
           this\<lparr>zf_file_id := file_id, zf_filename := filename, zf_lifetime := lifetime,
                zf_fileSize := file_size, zf_smallest := smallest, zf_largest := largest,
                zf_level := level, zf_extents := extents\<rparr>))"

text \<open>
  Modelled from the spec: the body of \<open>ZoneFile::MergeUpdate(update)\<close>, which io_zenfs.h
  only declares. Section 4.4: it replays a delta onto a file in memory; it appends the new
  extents and updates the file size and the keys, and fails if the \<open>file_id\<close>s differ.
  The spec does not name the kind of that error; the model uses Corruption.
\<close>

definition MergeUpdate :: "ZoneFile \<Rightarrow> ZoneFile \<Rightarrow> Status \<times> ZoneFile" where
  "MergeUpdate this update =
     (if zf_file_id this \<noteq> GetID update
        then (Status_Corruption ''ZoneFile update: ID mismatch'', this)
      else (Status_OK,
            this\<lparr>zf_extents := zf_extents this @ GetExtents update,
                 zf_fileSize := zf_fileSize update,
                 zf_smallest := zf_smallest update,
                 zf_largest := zf_largest update\<rparr>))"

section \<open>File handles (io_zenfs.h)\<close>

text \<open>\<open>class ZonedWritableFile\<close>\<close>

record ZonedWritableFile =
  wf_buffered :: bool
  wf_buffer :: "byte list"
  wf_buffer_sz :: uint64_t
  wf_block_sz :: uint32_t
  wf_buffer_pos :: uint32_t
  wf_wp :: uint64_t
  wf_write_temp :: cint
  wf_zoneFile :: ptr
  wf_metadata_writer :: ptr

definition ZonedWritableFile_use_direct_io :: "ZonedWritableFile \<Rightarrow> bool" where
  "ZonedWritableFile_use_direct_io w = (\<not> wf_buffered w)"

text \<open>\<open>class ZonedSequentialFile\<close>\<close>

record ZonedSequentialFile =
  sf_zoneFile :: ptr
  sf_rp :: uint64_t
  sf_direct :: bool

definition ZonedSequentialFile_ctor :: "ptr \<Rightarrow> FileOptions \<Rightarrow> ZonedSequentialFile" where
  "ZonedSequentialFile_ctor zoneFile file_opts =
     \<lparr>sf_zoneFile = zoneFile, sf_rp = 0, sf_direct = use_direct_reads file_opts\<rparr>"

definition ZonedSequentialFile_use_direct_io :: "ZonedSequentialFile \<Rightarrow> bool" where
  "ZonedSequentialFile_use_direct_io s = True"

text \<open>\<open>class ZonedRandomAccessFile\<close>\<close>

record ZonedRandomAccessFile =
  rf_zoneFile :: ptr
  rf_direct :: bool

definition ZonedRandomAccessFile_ctor :: "ptr \<Rightarrow> FileOptions \<Rightarrow> ZonedRandomAccessFile" where
  "ZonedRandomAccessFile_ctor zoneFile file_opts =
     \<lparr>rf_zoneFile = zoneFile, rf_direct = use_direct_reads file_opts\<rparr>"

text \<open>
  \<open>MultiRead\<close> and \<open>Prefetch\<close> name none of their parameters: they return a status and
  touch neither the handle nor the requests, which are returned as they came.
\<close>

definition MultiRead ::
  "ZonedRandomAccessFile \<Rightarrow> FSReadRequest list \<Rightarrow> uint64_t
     \<Rightarrow> IOStatus \<times> ZonedRandomAccessFile \<times> FSReadRequest list" where
  "MultiRead r reqs num_reqs = (Status_IOError ''Not implemented'', r, reqs)"

definition Prefetch ::
  "ZonedRandomAccessFile \<Rightarrow> uint64_t \<Rightarrow> uint64_t \<Rightarrow> IOStatus \<times> ZonedRandomAccessFile" where
  "Prefetch r offset n = (Status_OK, r)"

definition ZonedRandomAccessFile_use_direct_io :: "ZonedRandomAccessFile \<Rightarrow> bool" where
  "ZonedRandomAccessFile_use_direct_io r = True"

section \<open>Sample values\<close>

text \<open>A file of two extents, and the same file holding \<open>2 ^ 32\<close> extents.\<close>

definition example_file :: ZoneFile where
  "example_file =
     \<lparr>zf_zbd = 1,
      zf_extents = [\<lparr>ze_start = 0, ze_length = 4096, ze_zone = 3\<rparr>,
                    \<lparr>ze_start = 1048576, ze_length = 8192, ze_zone = 4\<rparr>],
      zf_active_zone = None, zf_extent_start = 0, zf_extent_filepos = 0,
      zf_lifetime = WLTH_MEDIUM, zf_fileSize = 12288, zf_filename = ''000012.sst'',
      zf_file_id = 7, zf_nr_synced_extents = 0, zf_full_buffer = [],
      zf_smallest = [1, 2], zf_largest = [3], zf_level = 1, zf_is_appending = False,
      zf_marked_for_del = False, zf_should_flush_full_buffer = False, zf_is_sst = True,
      zf_fno = 12\<rparr>"

definition huge_file :: ZoneFile where
  "huge_file = UpdateExtents example_file
                 (replicate 4294967296 \<lparr>ze_start = 0, ze_length = 4096, ze_zone = 3\<rparr>)"

text \<open>A zone of 1 MiB with 4096 bytes left.\<close>

definition example_zone :: Zone where
  "example_zone =
     \<lparr>z_zone_id = 3, z_start = 3145728, z_capacity = 4096, z_max_capacity = 1048576,
      z_wp = 4190208, z_open_for_write = True, z_is_append = False,
      z_lifetime = WLTH_MEDIUM, z_used_capacity = 1044480, z_extent_info = []\<rparr>"

section \<open>Properties of the queues\<close>

lemma pq_pops_set: "pq_pops cmp q out rest \<Longrightarrow> set out \<union> set rest \<subseteq> set q"
proof (induction rule: pq_pops.induct)
  case (pops_none q)
  show ?case by simp
next
  case (pops_step q m out rest)
  have "set (remove1 m q) \<subseteq> set q" by (rule set_remove1_subset)
  with pops_step show ?case by (auto simp: pq_is_top_def)
qed

lemma pq_pops_sorted:
  "pq_pops cmp q out rest \<Longrightarrow>
     sorted_wrt (\<lambda>x y. \<not> cmp x y) out \<and> (\<forall>x \<in> set out. \<forall>y \<in> set rest. \<not> cmp x y)"
proof (induction rule: pq_pops.induct)
  case (pops_none q)
  show ?case by simp
next
  case (pops_step q m out rest)
  have "set out \<union> set rest \<subseteq> set q"
    using pq_pops_set [OF pops_step.hyps(2)] set_remove1_subset [of m q] by blast
  with pops_step show ?case by (auto simp: pq_is_top_def)
qed

lemma pq_pops_length: "pq_pops cmp q out rest \<Longrightarrow> length out + length rest = length q"
proof (induction rule: pq_pops.induct)
  case (pops_none q)
  show ?case by simp
next
  case (pops_step q m out rest)
  from pops_step.hyps(1) have m: "m \<in> set q" by (simp add: pq_is_top_def)
  then have "0 < length q" by (cases q) auto
  with m pops_step.IH show ?case by (simp add: length_remove1)
qed

lemma pq_pop_n_pops:
  "pq_pop_n n cmp q = Some (out, rest) \<Longrightarrow> pq_pops cmp q out rest"
proof (induction n arbitrary: q out)
  case 0
  then show ?case by (auto intro: pops_none)
next
  case (Suc n)
  from Suc.prems obtain m out' where m: "pq_top cmp q = Some m"
    and out': "pq_pop_n n cmp (remove1 m q) = Some (out', rest)" and out: "out = m # out'"
    by (auto split: option.splits)
  from m have "pq_is_top cmp q m"
    by (auto simp: pq_top_def find_Some_iff)
  with Suc.IH [OF out'] out show ?case by (auto intro: pops_step)
qed

text \<open>Both comparators are strict weak orderings, as the queues require.\<close>

lemma strict_weak_order_InvalComp: "strict_weak_order InvalComp"
  by (auto simp: strict_weak_order_def InvalComp_def)

lemma strict_weak_order_InvalValComp: "strict_weak_order InvalValComp"
  unfolding strict_weak_order_def InvalValComp_def
  by (intro conjI allI impI) (auto split: if_splits)

text \<open>The front of a heap is on top in the sense of \<open>pq_is_top\<close>.\<close>

lemma heap_front_is_top:
  assumes swo: "strict_weak_order cmp" and h: "is_heap cmp v" and ne: "v \<noteq> []"
  shows "pq_is_top cmp v (v ! 0)"
proof -
  from swo have nt: "\<not> cmp a b \<Longrightarrow> \<not> cmp b c \<Longrightarrow> \<not> cmp a c" for a b c
    unfolding strict_weak_order_def by blast
  have le: "\<not> cmp (v ! 0) (v ! i)" if "i < length v" for i
    using that
  proof (induction i rule: less_induct)
    case (less i)
    show ?case
    proof (cases "i = 0")
      case True
      from swo have "\<not> cmp (v ! 0) (v ! 0)" by (simp add: strict_weak_order_def)
      with True show ?thesis by simp
    next
      case False
      let ?p = "(i - 1) div 2"
      from False have p: "?p < i" by simp
      with less.prems have "\<not> cmp (v ! 0) (v ! ?p)" by (intro less.IH) simp_all
      moreover from h less.prems False have "\<not> cmp (v ! ?p) (v ! i)"
        by (simp add: is_heap_def)
      ultimately show ?thesis using nt by blast
    qed
  qed
  from ne have "v ! 0 \<in> set v" by simp
  with le show ?thesis by (auto simp: pq_is_top_def in_set_conv_nth)
qed

text \<open>A queue that is not empty has a top, so the deterministic queue can always pop.\<close>

lemma exists_top:
  assumes swo: "strict_weak_order cmp" and ne: "q \<noteq> []"
  shows "\<exists>m. pq_is_top cmp q m"
proof -
  from swo have irr: "\<not> cmp a a" for a
    by (simp add: strict_weak_order_def)
  from swo have tr: "cmp a b \<Longrightarrow> cmp b c \<Longrightarrow> cmp a c" for a b c
    unfolding strict_weak_order_def by blast
  from ne show ?thesis
  proof (induction q)
    case Nil
    then show ?case by simp
  next
    case (Cons x q)
    show ?case
    proof (cases "q = []")
      case True
      with irr have "pq_is_top cmp (x # q) x" by (simp add: pq_is_top_def)
      then show ?thesis ..
    next
      case False
      then obtain m where m: "pq_is_top cmp q m" using Cons.IH by blast
      show ?thesis
      proof (cases "cmp m x")
        case True
        have "\<not> cmp x y" if "y \<in> set q" for y
        proof
          assume "cmp x y"
          with True have "cmp m y" by (rule tr)
          with m that show False by (simp add: pq_is_top_def)
        qed
        with irr have "pq_is_top cmp (x # q) x" by (simp add: pq_is_top_def)
        then show ?thesis ..
      next
        case False
        with m have "pq_is_top cmp (x # q) m" by (simp add: pq_is_top_def)
        then show ?thesis ..
      qed
    qed
  qed
qed

lemma pq_top_Some:
  assumes "strict_weak_order cmp" and "q \<noteq> []"
  shows "\<exists>m. pq_top cmp q = Some m"
proof -
  from exists_top [OF assms] obtain m where "pq_is_top cmp q m" ..
  then have "\<exists>x \<in> set q. pq_is_top cmp q x" by (auto simp: pq_is_top_def)
  then have "find (pq_is_top cmp q) q \<noteq> None" by (auto simp: find_None_iff)
  then show ?thesis by (auto simp: pq_top_def)
qed

lemma pq_pop_n_total:
  assumes swo: "strict_weak_order cmp"
  shows "n \<le> length q \<Longrightarrow> \<exists>out rest. pq_pop_n n cmp q = Some (out, rest)"
proof (induction n arbitrary: q)
  case 0
  show ?case by simp
next
  case (Suc n)
  then have ne: "q \<noteq> []" by auto
  from pq_top_Some [OF swo ne] obtain m where m: "pq_top cmp q = Some m" ..
  then have "m \<in> set q" by (auto simp: pq_top_def find_Some_iff)
  with Suc.prems have "n \<le> length (remove1 m q)" by (simp add: length_remove1)
  from Suc.IH [OF this] obtain out rest where "pq_pop_n n cmp (remove1 m q) = Some (out, rest)"
    by blast
  with m show ?case by simp
qed

section \<open>The metadata record decodes to what was encoded\<close>

lemma unat_byte_of_nat: "n < 256 \<Longrightarrow> unat (of_nat n :: byte) = n"
  by (simp add: unat_of_nat)

lemma get_varint_put_varint: "get_varint (put_varint n @ rest) = Some (n, rest)"
proof (induction n rule: put_varint.induct)
  case (1 n)
  show ?case
  proof (cases "n < 128")
    case True
    then have "unat (of_nat n :: byte) = n" by (simp add: unat_byte_of_nat)
    with True show ?thesis by (simp add: put_varint.simps [of n])
  next
    case False
    have b: "unat (of_nat (128 + n mod 128) :: byte) = 128 + n mod 128"
      by (rule unat_byte_of_nat) simp
    from False have "get_varint (put_varint (n div 128) @ rest) = Some (n div 128, rest)"
      by (rule "1.IH")
    with False b show ?thesis by (simp add: put_varint.simps [of n])
  qed
qed

lemma get_field_put_field: "get_field (put_field p @ rest) = Some (p, rest)"
  by (simp add: get_field_def put_field_def get_varint_put_varint)

lemma get_field_put_field_end: "get_field (put_field p) = Some (p, [])"
  using get_field_put_field [of p "[]"] by simp

lemma length_le_bytes: "length (le_bytes n v) = n"
  by (induction n arbitrary: v) auto

lemma le_value_le_bytes: "v < 256 ^ n \<Longrightarrow> le_value (le_bytes n v) = v"
proof (induction n arbitrary: v)
  case 0
  then show ?case by simp
next
  case (Suc n)
  from Suc.prems have "v div 256 < 256 ^ n"
    by (simp add: less_mult_imp_div_less mult.commute)
  then have "le_value (le_bytes n (v div 256)) = v div 256" by (rule Suc.IH)
  moreover have "unat (of_nat (v mod 256) :: byte) = v mod 256"
    by (rule unat_byte_of_nat) simp
  ultimately show ?case by simp
qed

lemma GetFixed64_PutFixed64: "GetFixed64 (PutFixed64 w) = Some w"
proof -
  have "unat w < 2 ^ 64" using unsigned_less [of w] by simp
  then have "unat w < (256::nat) ^ 8" by simp
  then have "le_value (le_bytes 8 (unat w)) = unat w" by (rule le_value_le_bytes)
  then show ?thesis by (simp add: GetFixed64_def PutFixed64_def length_le_bytes)
qed

lemma GetFixed32_PutFixed32: "GetFixed32 (PutFixed32 w) = Some w"
proof -
  have "unat w < 2 ^ 32" using unsigned_less [of w] by simp
  then have "unat w < (256::nat) ^ 4" by simp
  then have "le_value (le_bytes 4 (unat w)) = unat w" by (rule le_value_le_bytes)
  then show ?thesis by (simp add: GetFixed32_def PutFixed32_def length_le_bytes)
qed

lemma get_string_put_string: "get_string (put_string s) = s"
proof -
  have "char_of (unat (of_nat (of_char c) :: byte)) = c" for c
    by (simp add: unat_of_nat)
  then show ?thesis by (simp add: get_string_def put_string_def map_idI)
qed

lemma get_lifetime_code: "get_lifetime [lifetime_code l] = Some l"
  by (cases l) (simp_all add: get_lifetime_def lifetime_of_code_def)

lemma length_ZoneExtent_EncodeTo: "length (ZoneExtent_EncodeTo e) = 16"
  by (simp add: ZoneExtent_EncodeTo_def PutFixed64_def PutFixed32_def length_le_bytes)

lemma ZoneExtent_DecodeFrom_EncodeTo: "ZoneExtent_DecodeFrom (ZoneExtent_EncodeTo e) = Some e"
proof -
  have l8: "length (PutFixed64 (ze_start e)) = 8" and l4: "length (PutFixed32 (ze_length e)) = 4"
    by (simp_all add: PutFixed64_def PutFixed32_def length_le_bytes)
  have d12: "drop 12 (ZoneExtent_EncodeTo e) = PutFixed32 (ze_zone e)"
    using l8 l4 by (simp add: ZoneExtent_EncodeTo_def)
  have t8: "take 8 (ZoneExtent_EncodeTo e) = PutFixed64 (ze_start e)"
    using l8 by (simp add: ZoneExtent_EncodeTo_def)
  have t4: "take 4 (drop 8 (ZoneExtent_EncodeTo e)) = PutFixed32 (ze_length e)"
    using l8 l4 by (simp add: ZoneExtent_EncodeTo_def)
  show ?thesis
    by (simp add: ZoneExtent_DecodeFrom_def d12 t8 t4 GetFixed64_PutFixed64
          GetFixed32_PutFixed32)
qed

lemma get_extents_encoded:
  "get_extents (concat (map ZoneExtent_EncodeTo es)) = Some es"
proof (induction es)
  case Nil
  show ?case by (simp add: get_extents.simps [of "[]"])
next
  case (Cons e es)
  let ?p = "ZoneExtent_EncodeTo e @ concat (map ZoneExtent_EncodeTo es)"
  have ne: "?p \<noteq> []" using length_ZoneExtent_EncodeTo [of e] by auto
  have ge: "\<not> length ?p < 16" using length_ZoneExtent_EncodeTo [of e] by simp
  have t: "take 16 ?p = ZoneExtent_EncodeTo e" and d: "drop 16 ?p = concat (map ZoneExtent_EncodeTo es)"
    using length_ZoneExtent_EncodeTo [of e] by simp_all
  show ?case
    using ne ge Cons.IH
    by (simp add: get_extents.simps [of ?p] length_ZoneExtent_EncodeTo
          ZoneExtent_DecodeFrom_EncodeTo)
qed

lemma decode_record_EncodeTo:
  "decode_record (EncodeTo f [] extent_start) =
     Some (zf_file_id f, zf_filename f, zf_lifetime f, zf_fileSize f, zf_smallest f,
           zf_largest f, zf_level f, drop (unat extent_start) (zf_extents f))"
  by (simp add: decode_record_def EncodeTo_def get_field_put_field get_field_put_field_end
        GetFixed64_PutFixed64
        GetFixed32_PutFixed32 get_string_put_string get_lifetime_code get_extents_encoded)

lemma DecodeFrom_EncodeTo:
  "DecodeFrom g (EncodeTo f [] extent_start) =
     (Status_OK,
      g\<lparr>zf_file_id := zf_file_id f, zf_filename := zf_filename f, zf_lifetime := zf_lifetime f,
        zf_fileSize := zf_fileSize f, zf_smallest := zf_smallest f, zf_largest := zf_largest f,
        zf_level := zf_level f, zf_extents := drop (unat extent_start) (zf_extents f)\<rparr>)"
  by (simp add: DecodeFrom_def decode_record_EncodeTo)

lemma EncodeUpdateTo_decoded:
  "DecodeFrom g (EncodeUpdateTo f []) =
     (Status_OK,
      g\<lparr>zf_file_id := zf_file_id f, zf_filename := zf_filename f, zf_lifetime := zf_lifetime f,
        zf_fileSize := zf_fileSize f, zf_smallest := zf_smallest f, zf_largest := zf_largest f,
        zf_level := zf_level f,
        zf_extents := drop (unat (zf_nr_synced_extents f)) (zf_extents f)\<rparr>)"
  by (simp add: EncodeUpdateTo_def DecodeFrom_EncodeTo)

lemma EncodeSnapshotTo_decoded:
  "DecodeFrom g (EncodeSnapshotTo f []) =
     (Status_OK,
      g\<lparr>zf_file_id := zf_file_id f, zf_filename := zf_filename f, zf_lifetime := zf_lifetime f,
        zf_fileSize := zf_fileSize f, zf_smallest := zf_smallest f, zf_largest := zf_largest f,
        zf_level := zf_level f, zf_extents := zf_extents f\<rparr>)"
  by (simp add: EncodeSnapshotTo_def DecodeFrom_EncodeTo)

lemma unat_nr_synced_MetadataSynced:
  "length (zf_extents f) < 2 ^ 32 \<Longrightarrow>
     unat (zf_nr_synced_extents (MetadataSynced f)) = length (zf_extents f)"
  by (simp add: MetadataSynced_def unat_of_nat)

lemma unat_ucast_32_64: "unat (ucast (w :: 32 word) :: 64 word) = unat w"
proof -
  have "unat w < 2 ^ 32" using unsigned_less [of w] by simp
  then have "unat w < 2 ^ 64" by simp
  then show ?thesis by (simp add: unsigned_ucast_eq take_bit_nat_eq_self)
qed

section \<open>The allocation queue\<close>

text \<open>
  C1 (as the code has it). \<open>allocate_queue_\<close> yields zones by increasing valid bytes,
  ties broken by decreasing invalid bytes: of two zones popped one after the other, however
  far apart (the \<open>i\<close>-th and the \<open>j\<close>-th popped), the earlier has at most the valid bytes
  of the later, and with equal valid bytes at least its invalid bytes; the same holds
  between a popped zone and one still queued. So a zone with strictly more valid bytes is
  dequeued after one with fewer.
\<close>

theorem allocate_queue_order:
  assumes "pq_pops InvalValComp q out rest" and "i < length out"
  shows "(i < j \<and> j < length out \<longrightarrow>
            AllocVictimZone_get_valid_bytes (out ! i) \<le> AllocVictimZone_get_valid_bytes (out ! j)
          \<and> (AllocVictimZone_get_valid_bytes (out ! i) = AllocVictimZone_get_valid_bytes (out ! j)
               \<longrightarrow> AllocVictimZone_get_inval_bytes (out ! j)
                     \<le> AllocVictimZone_get_inval_bytes (out ! i)))
       \<and> (\<forall>y \<in> set rest.
             AllocVictimZone_get_valid_bytes (out ! i) \<le> AllocVictimZone_get_valid_bytes y
           \<and> (AllocVictimZone_get_valid_bytes (out ! i) = AllocVictimZone_get_valid_bytes y
                \<longrightarrow> AllocVictimZone_get_inval_bytes y \<le> AllocVictimZone_get_inval_bytes (out ! i)))"
proof -
  from assms(1) have s: "sorted_wrt (\<lambda>x y. \<not> InvalValComp x y) out"
    and r: "\<forall>x \<in> set out. \<forall>y \<in> set rest. \<not> InvalValComp x y"
    using pq_pops_sorted by blast+
  from s have a: "\<not> InvalValComp (out ! i) (out ! j)" if "i < j" and "j < length out"
    using that by (rule sorted_wrt_nth_less)
  from assms(2) have "out ! i \<in> set out" by simp
  with r have b: "\<forall>y \<in> set rest. \<not> InvalValComp (out ! i) y" by blast
  from a b show ?thesis
    by (auto simp: InvalValComp_def split: if_splits)
qed

text \<open>
  Three zones with valid bytes 10, 20 and 10: the two pops yield the zones with 10 valid
  bytes, the one with 7 invalid bytes before the one with 5, and leave the zone with 20.
\<close>

theorem allocate_queue_order_witness:
  "pq_pops InvalValComp
     [\<lparr>av_zone = 1, av_invalid_bytes = 5, av_valid_bytes = 10\<rparr>,
      \<lparr>av_zone = 2, av_invalid_bytes = 1, av_valid_bytes = 20\<rparr>,
      \<lparr>av_zone = 3, av_invalid_bytes = 7, av_valid_bytes = 10\<rparr>]
     [\<lparr>av_zone = 3, av_invalid_bytes = 7, av_valid_bytes = 10\<rparr>,
      \<lparr>av_zone = 1, av_invalid_bytes = 5, av_valid_bytes = 10\<rparr>]
     [\<lparr>av_zone = 2, av_invalid_bytes = 1, av_valid_bytes = 20\<rparr>]
   \<and> AllocVictimZone_get_valid_bytes \<lparr>av_zone = 3, av_invalid_bytes = 7, av_valid_bytes = 10\<rparr>
       \<le> AllocVictimZone_get_valid_bytes \<lparr>av_zone = 1, av_invalid_bytes = 5, av_valid_bytes = 10\<rparr>
   \<and> AllocVictimZone_get_inval_bytes \<lparr>av_zone = 1, av_invalid_bytes = 5, av_valid_bytes = 10\<rparr>
       \<le> AllocVictimZone_get_inval_bytes \<lparr>av_zone = 3, av_invalid_bytes = 7, av_valid_bytes = 10\<rparr>"
proof -
  have "pq_pop_n (Suc (Suc 0)) InvalValComp
     [\<lparr>av_zone = 1, av_invalid_bytes = 5, av_valid_bytes = 10\<rparr>,
      \<lparr>av_zone = 2, av_invalid_bytes = 1, av_valid_bytes = 20\<rparr>,
      \<lparr>av_zone = 3, av_invalid_bytes = 7, av_valid_bytes = 10\<rparr>]
    = Some ([\<lparr>av_zone = 3, av_invalid_bytes = 7, av_valid_bytes = 10\<rparr>,
      \<lparr>av_zone = 1, av_invalid_bytes = 5, av_valid_bytes = 10\<rparr>],
     [\<lparr>av_zone = 2, av_invalid_bytes = 1, av_valid_bytes = 20\<rparr>])"
    by (simp add: pq_top_def pq_is_top_def InvalValComp_def
          AllocVictimZone_get_valid_bytes_def AllocVictimZone_get_inval_bytes_def)
  then have d: "pq_pops InvalValComp
     [\<lparr>av_zone = 1, av_invalid_bytes = 5, av_valid_bytes = 10\<rparr>,
      \<lparr>av_zone = 2, av_invalid_bytes = 1, av_valid_bytes = 20\<rparr>,
      \<lparr>av_zone = 3, av_invalid_bytes = 7, av_valid_bytes = 10\<rparr>]
     [\<lparr>av_zone = 3, av_invalid_bytes = 7, av_valid_bytes = 10\<rparr>,
      \<lparr>av_zone = 1, av_invalid_bytes = 5, av_valid_bytes = 10\<rparr>]
     [\<lparr>av_zone = 2, av_invalid_bytes = 1, av_valid_bytes = 20\<rparr>]"
    by (rule pq_pop_n_pops)
  from allocate_queue_order [OF d, of 0 1] d show ?thesis
    by (simp add: AllocVictimZone_get_valid_bytes_def AllocVictimZone_get_inval_bytes_def)
qed

text \<open>
  C1 as stated fails: with a zone of 10 valid bytes and a zone of 20 queued, the zone on
  top is the one with 10, and the zone with 20 cannot be on top.
\<close>

theorem allocate_queue_most_valid_first_counterexample:
  "AllocVictimZone_get_valid_bytes \<lparr>av_zone = 1, av_invalid_bytes = 0, av_valid_bytes = 10\<rparr>
     < AllocVictimZone_get_valid_bytes \<lparr>av_zone = 2, av_invalid_bytes = 0, av_valid_bytes = 20\<rparr>
   \<and> pq_top InvalValComp
        [\<lparr>av_zone = 1, av_invalid_bytes = 0, av_valid_bytes = 10\<rparr>,
         \<lparr>av_zone = 2, av_invalid_bytes = 0, av_valid_bytes = 20\<rparr>]
       = Some \<lparr>av_zone = 1, av_invalid_bytes = 0, av_valid_bytes = 10\<rparr>
   \<and> \<not> pq_is_top InvalValComp
        [\<lparr>av_zone = 1, av_invalid_bytes = 0, av_valid_bytes = 10\<rparr>,
         \<lparr>av_zone = 2, av_invalid_bytes = 0, av_valid_bytes = 20\<rparr>]
        \<lparr>av_zone = 2, av_invalid_bytes = 0, av_valid_bytes = 20\<rparr>"
  by (simp add: pq_top_def pq_is_top_def InvalValComp_def
        AllocVictimZone_get_valid_bytes_def AllocVictimZone_get_inval_bytes_def)

section \<open>The victim queue\<close>

text \<open>
  C2. \<open>gc_queue_\<close> yields victims by decreasing invalid bytes: of two victims popped one
  after the other, however far apart, the earlier has at least the invalid bytes of the
  later, and a popped victim has at least the invalid bytes of every victim still queued.
  So the victim with strictly more invalid bytes is popped first, wherever the popping
  stops.
\<close>

theorem gc_queue_order:
  assumes "pq_pops InvalComp q out rest" and "i < length out"
  shows "(i < j \<and> j < length out \<longrightarrow>
            GCVictimZone_get_inval_bytes (out ! j) \<le> GCVictimZone_get_inval_bytes (out ! i))
       \<and> (\<forall>y \<in> set rest.
             GCVictimZone_get_inval_bytes y \<le> GCVictimZone_get_inval_bytes (out ! i))"
proof -
  from assms(1) have s: "sorted_wrt (\<lambda>x y. \<not> InvalComp x y) out"
    and r: "\<forall>x \<in> set out. \<forall>y \<in> set rest. \<not> InvalComp x y"
    using pq_pops_sorted by blast+
  from s have a: "\<not> InvalComp (out ! i) (out ! j)" if "i < j" and "j < length out"
    using that by (rule sorted_wrt_nth_less)
  from assms(2) have "out ! i \<in> set out" by simp
  with r have b: "\<forall>y \<in> set rest. \<not> InvalComp (out ! i) y" by blast
  from a b show ?thesis
    by (auto simp: InvalComp_def)
qed

text \<open>
  Victims with 5, 9 and 7 invalid bytes: two pops yield 9 and then 7, and leave 5.
\<close>

theorem gc_queue_order_witness:
  "pq_pops InvalComp
     [\<lparr>gc_zone = 1, gc_invalid_bytes = 5\<rparr>, \<lparr>gc_zone = 2, gc_invalid_bytes = 9\<rparr>,
      \<lparr>gc_zone = 3, gc_invalid_bytes = 7\<rparr>]
     [\<lparr>gc_zone = 2, gc_invalid_bytes = 9\<rparr>, \<lparr>gc_zone = 3, gc_invalid_bytes = 7\<rparr>]
     [\<lparr>gc_zone = 1, gc_invalid_bytes = 5\<rparr>]
   \<and> GCVictimZone_get_inval_bytes \<lparr>gc_zone = 3, gc_invalid_bytes = 7\<rparr>
       \<le> GCVictimZone_get_inval_bytes \<lparr>gc_zone = 2, gc_invalid_bytes = 9\<rparr>
   \<and> GCVictimZone_get_inval_bytes \<lparr>gc_zone = 1, gc_invalid_bytes = 5\<rparr>
       \<le> GCVictimZone_get_inval_bytes \<lparr>gc_zone = 2, gc_invalid_bytes = 9\<rparr>"
proof -
  have "pq_pop_n (Suc (Suc 0)) InvalComp
     [\<lparr>gc_zone = 1, gc_invalid_bytes = 5\<rparr>, \<lparr>gc_zone = 2, gc_invalid_bytes = 9\<rparr>,
      \<lparr>gc_zone = 3, gc_invalid_bytes = 7\<rparr>]
    = Some ([\<lparr>gc_zone = 2, gc_invalid_bytes = 9\<rparr>, \<lparr>gc_zone = 3, gc_invalid_bytes = 7\<rparr>],
            [\<lparr>gc_zone = 1, gc_invalid_bytes = 5\<rparr>])"
    by (simp add: pq_top_def pq_is_top_def InvalComp_def
          GCVictimZone_get_inval_bytes_def)
  then have d: "pq_pops InvalComp
     [\<lparr>gc_zone = 1, gc_invalid_bytes = 5\<rparr>, \<lparr>gc_zone = 2, gc_invalid_bytes = 9\<rparr>,
      \<lparr>gc_zone = 3, gc_invalid_bytes = 7\<rparr>]
     [\<lparr>gc_zone = 2, gc_invalid_bytes = 9\<rparr>, \<lparr>gc_zone = 3, gc_invalid_bytes = 7\<rparr>]
     [\<lparr>gc_zone = 1, gc_invalid_bytes = 5\<rparr>]"
    by (rule pq_pop_n_pops)
  from gc_queue_order [OF d, of 0 1] d show ?thesis
    by (simp add: GCVictimZone_get_inval_bytes_def)
qed

section \<open>Invalidating an extent\<close>

text \<open>
  C3 (as the code has it). Invalidating an extent a second time is detected by a message,
  not by an assertion: for every \<open>ZoneExtentInfo\<close> whose valid flag is already false,
  and whose extent pointer is not null or whose build has the assertion compiled out,
  \<open>invalidate\<close> writes "Try to invalidate invalid extent!" to the standard error stream
  and returns, with the object as it was.
\<close>

theorem invalidate_invalid_logs:
  assumes "\<not> zei_valid e" and "ndebug \<or> zei_extent e \<noteq> nullptr"
  shows "invalidate ndebug e stderr = Inr (e, stderr @ [invalidate_msg])"
  using assms by (auto simp: invalidate_def)

text \<open>An extent built invalid, with a non-null extent pointer, in a build with assertions.\<close>

theorem invalidate_invalid_logs_witness:
  "\<not> zei_valid (ZoneExtentInfo_ctor 1 2 False 4096 0 3 ''000012.sst'' WLTH_SHORT 1)
   \<and> zei_extent (ZoneExtentInfo_ctor 1 2 False 4096 0 3 ''000012.sst'' WLTH_SHORT 1) \<noteq> nullptr
   \<and> invalidate False (ZoneExtentInfo_ctor 1 2 False 4096 0 3 ''000012.sst'' WLTH_SHORT 1) []
       = Inr (ZoneExtentInfo_ctor 1 2 False 4096 0 3 ''000012.sst'' WLTH_SHORT 1, [invalidate_msg])"
  using invalidate_invalid_logs
    [of "ZoneExtentInfo_ctor 1 2 False 4096 0 3 ''000012.sst'' WLTH_SHORT 1" False "[]"]
  by (simp add: ZoneExtentInfo_ctor_def nullptr_def)

text \<open>
  C3 as stated fails: in a build with assertions, invalidating an invalid extent does not
  fail an assertion, and two calls in a row on a valid extent both return, the second one
  after writing the message.
\<close>

theorem invalidate_twice_no_assert_counterexample:
  "invalidate False (ZoneExtentInfo_ctor 1 2 False 4096 0 3 ''000012.sst'' WLTH_SHORT 1) []
     \<noteq> Inl AssertionFailed
   \<and> invalidate_times 2 False (ZoneExtentInfo_ctor 1 2 True 4096 0 3 ''000012.sst'' WLTH_SHORT 1) []
     = Inr (ZoneExtentInfo_ctor 1 2 False 4096 0 3 ''000012.sst'' WLTH_SHORT 1, [invalidate_msg])"
  by (simp add: invalidate_def ZoneExtentInfo_ctor_def nullptr_def eval_nat_numeral)

text \<open>
  C10. Invalidation is absorbing: when \<open>invalidate\<close> returns, the valid flag is false,
  whatever it was before; from an invalid extent, after any number of calls the flag is
  still false; and the call aborts exactly when the assertion is compiled in and the
  extent pointer is null, so this is the only precondition checked.
\<close>

theorem invalidate_absorbing:
  "(invalidate ndebug e stderr = Inr (e', stderr') \<longrightarrow> \<not> zei_valid e')
   \<and> (\<not> zei_valid e \<and> invalidate_times n ndebug e stderr = Inr (e', stderr') \<longrightarrow> \<not> zei_valid e')
   \<and> ((\<exists>a. invalidate ndebug e stderr = Inl a) \<longleftrightarrow> \<not> ndebug \<and> zei_extent e = nullptr)"
proof -
  have one: "\<not> zei_valid x'" if "invalidate ndebug x err = Inr (x', err')" for x x' err err'
    using that by (auto simp: invalidate_def Let_def split: if_splits)
  have many: "\<not> zei_valid x'"
    if "\<not> zei_valid x" and "invalidate_times n ndebug x err = Inr (x', err')" for x x' err err'
    using that
  proof (induction n arbitrary: x err)
    case 0
    then show ?case by simp
  next
    case (Suc n)
    from Suc.prems(2) obtain y erry where y: "invalidate ndebug x err = Inr (y, erry)"
      and r: "invalidate_times n ndebug y erry = Inr (x', err')"
      by (auto split: sum.splits)
    from one [OF y] r show ?case by (rule Suc.IH)
  qed
  have pre: "(\<exists>a. invalidate ndebug e stderr = Inl a) \<longleftrightarrow> \<not> ndebug \<and> zei_extent e = nullptr"
    by (auto simp: invalidate_def Let_def)
  from one many pre show ?thesis by blast
qed

text \<open>
  A valid extent becomes invalid; three calls on an invalid extent with a null extent
  pointer, assertions compiled out, leave it invalid; with assertions compiled in, a null
  extent pointer aborts.
\<close>

theorem invalidate_absorbing_witness:
  "invalidate False (ZoneExtentInfo_ctor 1 2 True 4096 0 3 ''000012.sst'' WLTH_SHORT 1) []
     = Inr (ZoneExtentInfo_ctor 1 2 False 4096 0 3 ''000012.sst'' WLTH_SHORT 1, [])
   \<and> \<not> zei_valid (ZoneExtentInfo_ctor 1 2 False 4096 0 3 ''000012.sst'' WLTH_SHORT 1)
   \<and> invalidate_times 3 True (ZoneExtentInfo_ctor 0 2 False 4096 0 3 ''000012.sst'' WLTH_SHORT 1) []
     = Inr (ZoneExtentInfo_ctor 0 2 False 4096 0 3 ''000012.sst'' WLTH_SHORT 1,
            [invalidate_msg, invalidate_msg, invalidate_msg])
   \<and> invalidate False (ZoneExtentInfo_ctor 0 2 True 4096 0 3 ''000012.sst'' WLTH_SHORT 1) []
     = Inl AssertionFailed"
proof -
  have a: "invalidate False (ZoneExtentInfo_ctor 1 2 True 4096 0 3 ''000012.sst'' WLTH_SHORT 1) []
     = Inr (ZoneExtentInfo_ctor 1 2 False 4096 0 3 ''000012.sst'' WLTH_SHORT 1, [])"
    by (simp add: invalidate_def ZoneExtentInfo_ctor_def nullptr_def)
  have b: "invalidate_times 3 True (ZoneExtentInfo_ctor 0 2 False 4096 0 3 ''000012.sst'' WLTH_SHORT 1) []
     = Inr (ZoneExtentInfo_ctor 0 2 False 4096 0 3 ''000012.sst'' WLTH_SHORT 1,
            [invalidate_msg, invalidate_msg, invalidate_msg])"
    by (simp add: invalidate_def ZoneExtentInfo_ctor_def nullptr_def eval_nat_numeral)
  have c: "invalidate False (ZoneExtentInfo_ctor 0 2 True 4096 0 3 ''000012.sst'' WLTH_SHORT 1) []
     = Inl AssertionFailed"
    by (simp add: invalidate_def ZoneExtentInfo_ctor_def nullptr_def)
  from invalidate_absorbing
    [of False "ZoneExtentInfo_ctor 1 2 True 4096 0 3 ''000012.sst'' WLTH_SHORT 1" "[]"
        "ZoneExtentInfo_ctor 1 2 False 4096 0 3 ''000012.sst'' WLTH_SHORT 1" "[]" 0] a
  have "\<not> zei_valid (ZoneExtentInfo_ctor 1 2 False 4096 0 3 ''000012.sst'' WLTH_SHORT 1)"
    by blast
  with a b c show ?thesis by blast
qed

section \<open>File handles\<close>

text \<open>
  C4 (as the code has it). A sequential-read file handle reports direct I/O as required
  whatever its file options asked for: for every \<open>ZonedSequentialFile\<close>, constructed
  with \<open>use_direct_reads\<close> false or true, \<open>use_direct_io()\<close> returns true.
  Random-access readers always report it as required, and a writer reports it exactly when
  it is unbuffered.
\<close>

theorem use_direct_io_reports:
  "ZonedSequentialFile_use_direct_io (ZonedSequentialFile_ctor zoneFile file_opts) = True
   \<and> ZonedSequentialFile_use_direct_io s = True
   \<and> ZonedRandomAccessFile_use_direct_io r = True
   \<and> (ZonedWritableFile_use_direct_io w \<longleftrightarrow> \<not> wf_buffered w)"
  by (simp add: ZonedSequentialFile_use_direct_io_def ZonedRandomAccessFile_use_direct_io_def
        ZonedWritableFile_use_direct_io_def)

text \<open>
  C4 as stated fails: a sequential file constructed with \<open>use_direct_reads\<close> false
  reports direct I/O as required.
\<close>

theorem sequential_direct_io_counterexample:
  "use_direct_reads \<lparr>use_direct_reads = False\<rparr> = False
   \<and> ZonedSequentialFile_use_direct_io
       (ZonedSequentialFile_ctor 1 \<lparr>use_direct_reads = False\<rparr>) = True"
  by (simp add: ZonedSequentialFile_use_direct_io_def)

text \<open>
  C5 (as the code has it). For every random-access file handle and all read requests,
  \<open>MultiRead\<close> performs no read, leaves the requests as they are, and returns an error of
  the IO-Error kind with the message "Not implemented"; the error is not of the
  not-supported kind. \<open>Prefetch\<close> on the same handle always returns success.
\<close>

theorem MultiRead_Prefetch_status:
  "MultiRead r reqs num_reqs = (Status_IOError ''Not implemented'', r, reqs)
   \<and> IsIOError (fst (MultiRead r reqs num_reqs))
   \<and> \<not> IsNotSupported (fst (MultiRead r reqs num_reqs))
   \<and> Prefetch r offset n = (Status_OK, r)
   \<and> ok (fst (Prefetch r offset n))"
  by (simp add: MultiRead_def Prefetch_def Status_IOError_def Status_OK_def IsIOError_def
        IsNotSupported_def ok_def)

text \<open>
  C5 as stated fails: the status \<open>MultiRead\<close> returns for one request of 4096 bytes is
  an IO-Error, not an error of the not-supported kind.
\<close>

theorem MultiRead_not_implemented_kind_counterexample:
  "\<not> IsNotSupported (fst (MultiRead \<lparr>rf_zoneFile = 1, rf_direct = False\<rparr>
        [\<lparr>req_offset = 0, req_len = 4096, req_result = [], req_status = Status_OK\<rparr>] 1))
   \<and> IsIOError (fst (MultiRead \<lparr>rf_zoneFile = 1, rf_direct = False\<rparr>
        [\<lparr>req_offset = 0, req_len = 4096, req_result = [], req_status = Status_OK\<rparr>] 1))"
  by (simp add: MultiRead_def Status_IOError_def IsIOError_def IsNotSupported_def)

section \<open>Appending to a zone\<close>

text \<open>
  C8. For every zone and every append of a size strictly greater than the remaining
  capacity of the zone, \<open>Zone::Append\<close> fails with a no-space error and returns the zone
  unchanged: the write pointer, the remaining capacity, the used capacity and the list of
  extent back-references are what they were.
\<close>

theorem Zone_Append_no_space:
  assumes "unat (z_capacity z) < unat sz"
  shows "Zone_Append dev z data sz = (Status_NoSpace, z)
       \<and> IsNoSpace (fst (Zone_Append dev z data sz))
       \<and> z_wp (snd (Zone_Append dev z data sz)) = z_wp z
       \<and> z_capacity (snd (Zone_Append dev z data sz)) = z_capacity z
       \<and> z_used_capacity (snd (Zone_Append dev z data sz)) = z_used_capacity z
       \<and> z_extent_info (snd (Zone_Append dev z data sz)) = z_extent_info z"
proof -
  from assms have "z_capacity z < ucast sz"
    by (simp add: word_less_nat_alt unat_ucast_32_64)
  then show ?thesis
    by (simp add: Zone_Append_def IsNoSpace_def Status_NoSpace_def)
qed

text \<open>A zone with 4096 bytes left, asked to take 8192.\<close>

theorem Zone_Append_no_space_witness:
  "unat (z_capacity example_zone) < unat (8192 :: uint32_t)
   \<and> Zone_Append (\<lambda>wp buf. True) example_zone [] 8192 = (Status_NoSpace, example_zone)"
  using Zone_Append_no_space [of example_zone 8192 "\<lambda>wp buf. True" "[]"]
  by (simp add: example_zone_def)

section \<open>Metadata of a file\<close>

text \<open>
  C6 (as the code has it). For every \<open>ZoneFile\<close>, the delta encoding carries exactly
  the extents with index at least \<open>nr_synced_extents\<close>, and the snapshot encoding all
  extents from index 0. For every \<open>ZoneFile\<close> with fewer than \<open>2 ^ 32\<close> extents,
  \<open>MetadataSynced\<close> sets \<open>nr_synced_extents\<close> to the length of the extent list, and
  immediately after it the delta encoding carries no extent.
\<close>

theorem delta_and_snapshot_extents:
  "fst (DecodeFrom g (EncodeUpdateTo f [])) = Status_OK
   \<and> zf_extents (snd (DecodeFrom g (EncodeUpdateTo f [])))
       = drop (unat (zf_nr_synced_extents f)) (zf_extents f)
   \<and> fst (DecodeFrom g (EncodeSnapshotTo f [])) = Status_OK
   \<and> zf_extents (snd (DecodeFrom g (EncodeSnapshotTo f []))) = zf_extents f
   \<and> (length (zf_extents f) < 2 ^ 32 \<longrightarrow>
        unat (zf_nr_synced_extents (MetadataSynced f)) = length (zf_extents f)
      \<and> zf_extents (snd (DecodeFrom g (EncodeUpdateTo (MetadataSynced f) []))) = [])"
proof -
  have "zf_extents (snd (DecodeFrom g (EncodeUpdateTo (MetadataSynced f) []))) = []"
    if "length (zf_extents f) < 2 ^ 32"
  proof -
    have "zf_extents (MetadataSynced f) = zf_extents f" by (simp add: MetadataSynced_def)
    with unat_nr_synced_MetadataSynced [OF that] show ?thesis
      by (simp add: EncodeUpdateTo_decoded)
  qed
  then show ?thesis
    by (simp add: EncodeUpdateTo_decoded EncodeSnapshotTo_decoded unat_nr_synced_MetadataSynced)
qed

text \<open>
  The file of two extents: after \<open>MetadataSynced\<close> two extents are synced and the
  delta carries none; before it, the delta carries both.
\<close>

theorem delta_and_snapshot_extents_witness:
  "length (zf_extents example_file) < 2 ^ 32
   \<and> unat (zf_nr_synced_extents (MetadataSynced example_file)) = 2
   \<and> zf_extents (snd (DecodeFrom example_file (EncodeUpdateTo (MetadataSynced example_file) []))) = []
   \<and> zf_extents (snd (DecodeFrom example_file (EncodeUpdateTo example_file [])))
       = [\<lparr>ze_start = 0, ze_length = 4096, ze_zone = 3\<rparr>,
          \<lparr>ze_start = 1048576, ze_length = 8192, ze_zone = 4\<rparr>]"
  using delta_and_snapshot_extents [of example_file example_file]
  by (simp add: example_file_def)

text \<open>
  C6 as stated fails for a file of \<open>2 ^ 32\<close> extents: \<open>MetadataSynced\<close> leaves
  \<open>nr_synced_extents\<close> at 0, and the delta encoded right after it carries all the
  extents.
\<close>

theorem MetadataSynced_wraps_counterexample:
  "length (zf_extents huge_file) = 4294967296
   \<and> unat (zf_nr_synced_extents (MetadataSynced huge_file)) = 0
   \<and> length (zf_extents (snd (DecodeFrom huge_file (EncodeUpdateTo (MetadataSynced huge_file) []))))
       = 4294967296"
  by (simp add: huge_file_def UpdateExtents_def MetadataSynced_def EncodeUpdateTo_decoded)

text \<open>
  A snapshot and a later delta merge into the later snapshot when the delta starts where
  the snapshot ended, that is, when \<open>nr_synced_extents\<close> is the number of extents the
  snapshot carries.
\<close>

lemma merge_snapshot_delta:
  assumes "unat (zf_nr_synced_extents f) = length (zf_extents f)"
    and "f' = f\<lparr>zf_extents := zf_extents f @ es, zf_fileSize := sz,
                  zf_smallest := k1, zf_largest := k2\<rparr>"
    and "g1 = snd (DecodeFrom g (EncodeSnapshotTo f []))"
    and "u = snd (DecodeFrom h (EncodeUpdateTo f' []))"
  shows "fst (MergeUpdate g1 u) = Status_OK
       \<and> ZoneFile_meta (snd (MergeUpdate g1 u))
           = ZoneFile_meta (snd (DecodeFrom g (EncodeSnapshotTo f' [])))
       \<and> ZoneFile_meta (snd (MergeUpdate g1 u)) = ZoneFile_meta f'"
  using assms
  by (simp add: EncodeSnapshotTo_decoded EncodeUpdateTo_decoded MergeUpdate_def
        GetID_def GetExtents_def ZoneFile_meta_def)

text \<open>
  C7 (as the code has it). The metadata record round-trips: for every \<open>ZoneFile\<close>,
  decoding its snapshot gives a file with the same \<open>file_id\<close>, file name, lifetime, file
  size, keys, level and extents. For every \<open>ZoneFile\<close> \<open>f\<close> with fewer than \<open>2 ^ 32\<close>
  extents whose metadata is synced (\<open>MetadataSynced\<close>) when its snapshot is taken, and
  \<open>f'\<close> that file after later appends (more extents, another file size and keys):
  decoding the snapshot into a file and merging the decoded delta of \<open>f'\<close> into it with
  \<open>MergeUpdate\<close> succeeds and gives the same attributes as decoding the snapshot of
  \<open>f'\<close>, which are those of \<open>f'\<close>. \<open>MergeUpdate\<close> fails, and changes nothing, when
  the two \<open>file_id\<close>s differ.
\<close>

theorem metadata_roundtrip:
  "fst (DecodeFrom g (EncodeSnapshotTo f [])) = Status_OK
   \<and> ZoneFile_meta (snd (DecodeFrom g (EncodeSnapshotTo f []))) = ZoneFile_meta f
   \<and> (length (zf_extents f) < 2 ^ 32 \<longrightarrow>
        (let fs = MetadataSynced f;
             f' = fs\<lparr>zf_extents := zf_extents fs @ es, zf_fileSize := sz,
                      zf_smallest := k1, zf_largest := k2\<rparr>;
             g1 = snd (DecodeFrom g (EncodeSnapshotTo f []));
             u = snd (DecodeFrom h (EncodeUpdateTo f' []))
         in fst (MergeUpdate g1 u) = Status_OK
          \<and> ZoneFile_meta (snd (MergeUpdate g1 u))
              = ZoneFile_meta (snd (DecodeFrom g (EncodeSnapshotTo f' [])))
          \<and> ZoneFile_meta (snd (MergeUpdate g1 u)) = ZoneFile_meta f'))
   \<and> (zf_file_id this \<noteq> zf_file_id update \<longrightarrow>
        \<not> ok (fst (MergeUpdate this update)) \<and> snd (MergeUpdate this update) = this)"
proof -
  have a: "fst (DecodeFrom g (EncodeSnapshotTo f [])) = Status_OK"
    by (simp add: EncodeSnapshotTo_decoded)
  have b: "ZoneFile_meta (snd (DecodeFrom g (EncodeSnapshotTo f []))) = ZoneFile_meta f"
    by (simp add: EncodeSnapshotTo_decoded ZoneFile_meta_def)
  have c: "\<not> ok (fst (MergeUpdate this update)) \<and> snd (MergeUpdate this update) = this"
    if "zf_file_id this \<noteq> zf_file_id update"
    using that by (simp add: MergeUpdate_def GetID_def ok_def Status_Corruption_def)
  have d: "let fs = MetadataSynced f;
             f' = fs\<lparr>zf_extents := zf_extents fs @ es, zf_fileSize := sz,
                      zf_smallest := k1, zf_largest := k2\<rparr>;
             g1 = snd (DecodeFrom g (EncodeSnapshotTo f []));
             u = snd (DecodeFrom h (EncodeUpdateTo f' []))
         in fst (MergeUpdate g1 u) = Status_OK
          \<and> ZoneFile_meta (snd (MergeUpdate g1 u))
              = ZoneFile_meta (snd (DecodeFrom g (EncodeSnapshotTo f' [])))
          \<and> ZoneFile_meta (snd (MergeUpdate g1 u)) = ZoneFile_meta f'"
    if l: "length (zf_extents f) < 2 ^ 32"
  proof -
    let ?fs = "MetadataSynced f"
    have e: "zf_extents ?fs = zf_extents f" by (simp add: MetadataSynced_def)
    have s: "unat (zf_nr_synced_extents ?fs) = length (zf_extents ?fs)"
      using unat_nr_synced_MetadataSynced [OF l] e by simp
    have snap: "EncodeSnapshotTo f [] = EncodeSnapshotTo ?fs []"
      by (simp add: EncodeSnapshotTo_def EncodeTo_def MetadataSynced_def)
    show ?thesis
      unfolding Let_def snap
      by (rule merge_snapshot_delta [OF s refl refl refl])
  qed
  from a b c d show ?thesis by blast
qed

text \<open>
  The file of two extents, synced, then grown by a third extent: snapshot and delta merge
  into the three extents and the new size; an update with another \<open>file_id\<close> is refused.
\<close>

theorem metadata_roundtrip_witness:
  "length (zf_extents example_file) < 2 ^ 32
   \<and> ZoneFile_meta
        (snd (MergeUpdate
               (snd (DecodeFrom example_file (EncodeSnapshotTo example_file [])))
               (snd (DecodeFrom example_file
                      (EncodeUpdateTo
                         ((MetadataSynced example_file)
                            \<lparr>zf_extents := zf_extents (MetadataSynced example_file)
                                 @ [\<lparr>ze_start = 2097152, ze_length = 512, ze_zone = 5\<rparr>],
                             zf_fileSize := 12800, zf_smallest := [1, 2], zf_largest := [9]\<rparr>)
                         [])))))
     = (7, ''000012.sst'', WLTH_MEDIUM, 12800, [1, 2], [9], 1,
        [\<lparr>ze_start = 0, ze_length = 4096, ze_zone = 3\<rparr>,
         \<lparr>ze_start = 1048576, ze_length = 8192, ze_zone = 4\<rparr>,
         \<lparr>ze_start = 2097152, ze_length = 512, ze_zone = 5\<rparr>])
   \<and> zf_file_id example_file \<noteq> zf_file_id (example_file\<lparr>zf_file_id := 8\<rparr>)
   \<and> \<not> ok (fst (MergeUpdate example_file (example_file\<lparr>zf_file_id := 8\<rparr>)))"
proof -
  let ?fs = "MetadataSynced example_file"
  let ?f' = "?fs\<lparr>zf_extents := zf_extents ?fs
                   @ [\<lparr>ze_start = 2097152, ze_length = 512, ze_zone = 5\<rparr>],
               zf_fileSize := 12800, zf_smallest := [1, 2], zf_largest := [9]\<rparr>"
  have s: "length (zf_extents example_file) < 2 ^ 32"
    by (simp add: example_file_def)
  have i: "zf_file_id example_file \<noteq> zf_file_id (example_file\<lparr>zf_file_id := 8\<rparr>)"
    by (simp add: example_file_def)
  note r = metadata_roundtrip
    [where g = example_file and f = example_file
       and es = "[\<lparr>ze_start = 2097152, ze_length = 512, ze_zone = 5\<rparr>]"
       and sz = 12800 and ?k1.0 = "[1, 2]" and ?k2.0 = "[9]" and h = example_file
       and this = example_file and update = "example_file\<lparr>zf_file_id := 8\<rparr>",
     unfolded Let_def]
  from r s have m: "ZoneFile_meta
        (snd (MergeUpdate (snd (DecodeFrom example_file (EncodeSnapshotTo example_file [])))
               (snd (DecodeFrom example_file (EncodeUpdateTo ?f' [])))))
      = ZoneFile_meta ?f'"
    by blast
  have v: "ZoneFile_meta ?f'
      = (7, ''000012.sst'', WLTH_MEDIUM, 12800, [1, 2], [9], 1,
        [\<lparr>ze_start = 0, ze_length = 4096, ze_zone = 3\<rparr>,
         \<lparr>ze_start = 1048576, ze_length = 8192, ze_zone = 4\<rparr>,
         \<lparr>ze_start = 2097152, ze_length = 512, ze_zone = 5\<rparr>])"
    by (simp add: ZoneFile_meta_def MetadataSynced_def example_file_def)
  from r i have n: "\<not> ok (fst (MergeUpdate example_file (example_file\<lparr>zf_file_id := 8\<rparr>)))"
    by blast
  from s m [unfolded v] i n show ?thesis by blast
qed

text \<open>
  C7 as stated fails. For the file of two extents whose metadata was never synced, the
  delta taken after one append carries all three extents, and merging it into the decoded
  snapshot gives five extents where the later snapshot has three. For the file of
  \<open>2 ^ 32\<close> extents, \<open>MetadataSynced\<close> leaves \<open>nr_synced_extents\<close> at 0, the delta taken
  after one append carries \<open>2 ^ 32 + 1\<close> extents, and the merge gives \<open>2 ^ 33 + 1\<close>
  extents where the later snapshot has \<open>2 ^ 32 + 1\<close>.
\<close>

theorem snapshot_delta_merge_counterexample:
  "length (zf_extents
      (snd (MergeUpdate
             (snd (DecodeFrom example_file (EncodeSnapshotTo example_file [])))
             (snd (DecodeFrom example_file
                    (EncodeUpdateTo
                       (example_file
                          \<lparr>zf_extents := zf_extents example_file
                               @ [\<lparr>ze_start = 2097152, ze_length = 512, ze_zone = 5\<rparr>],
                           zf_fileSize := 12800\<rparr>)
                       [])))))) = 5
   \<and> length (zf_extents
      (snd (DecodeFrom example_file
             (EncodeSnapshotTo
                (example_file
                   \<lparr>zf_extents := zf_extents example_file
                        @ [\<lparr>ze_start = 2097152, ze_length = 512, ze_zone = 5\<rparr>],
                    zf_fileSize := 12800\<rparr>)
                [])))) = 3
   \<and> length (zf_extents
      (snd (MergeUpdate
             (snd (DecodeFrom example_file (EncodeSnapshotTo huge_file [])))
             (snd (DecodeFrom example_file
                    (EncodeUpdateTo
                       ((MetadataSynced huge_file)
                          \<lparr>zf_extents := zf_extents (MetadataSynced huge_file)
                               @ [\<lparr>ze_start = 2097152, ze_length = 512, ze_zone = 5\<rparr>],
                           zf_fileSize := 12800\<rparr>)
                       [])))))) = 8589934593
   \<and> length (zf_extents
      (snd (DecodeFrom example_file
             (EncodeSnapshotTo
                ((MetadataSynced huge_file)
                   \<lparr>zf_extents := zf_extents (MetadataSynced huge_file)
                        @ [\<lparr>ze_start = 2097152, ze_length = 512, ze_zone = 5\<rparr>],
                    zf_fileSize := 12800\<rparr>)
                [])))) = 4294967297"
  by (simp add: EncodeSnapshotTo_decoded EncodeUpdateTo_decoded MergeUpdate_def GetID_def
        GetExtents_def MetadataSynced_def UpdateExtents_def huge_file_def example_file_def)

end
